theory Spec2Isabelle
  imports Main "HOL-Library.Sublist"
begin

section \<open>Python values\<close>

text \<open>
  The values that \<^verbatim>\<open>response.json()\<close> can return: \<^verbatim>\<open>None\<close>, booleans, integers,
  floats, strings, lists and dictionaries with string keys. A dictionary is an association
  list read with \<open>map_of\<close>. Of a float only its truth value is ever used by the program, so a
  float is kept as sign, mantissa and exponent, or as one of the special values.
\<close>

datatype pyfloat = Finite bool nat int | Infinity bool | NaN

datatype json =
    JNull
  | JBool bool
  | JInt int
  | JFloat pyfloat
  | JStr string
  | JArr "json list"
  | JObj "(string \<times> json) list"

text \<open>
  The exceptions (all subclasses of Python's \<^verbatim>\<open>Exception\<close>) that the operations used by
  the two source files raise. \<open>RequestError\<close> stands for \<^verbatim>\<open>httpx.RequestError\<close> and its
  subclasses, \<open>HTTPStatusError\<close> is what \<^verbatim>\<open>raise_for_status\<close> raises, \<open>JSONDecodeError\<close>
  is what \<^verbatim>\<open>response.json()\<close> raises on a body that is not JSON, \<open>ValidationError\<close> is
  what a pydantic model raises when a field has the wrong type.
\<close>

datatype py_exception =
    RequestError string
  | HTTPStatusError int
  | JSONDecodeError
  | TypeError
  | AttributeError
  | KeyError
  | IndexError
  | ValidationError
  | OtherException string

fun is_RequestError :: "py_exception \<Rightarrow> bool" where
  "is_RequestError (RequestError m) = True"
| "is_RequestError e = False"

definition bind_exc :: "'e + 'a \<Rightarrow> ('a \<Rightarrow> 'e + 'b) \<Rightarrow> 'e + 'b" where
  "bind_exc m f = (case m of Inl e \<Rightarrow> Inl e | Inr v \<Rightarrow> f v)"

text \<open>Truth value of a Python object, as tested by \<^verbatim>\<open>not x\<close>.\<close>

fun truthy :: "json \<Rightarrow> bool" where
  "truthy JNull = False"
| "truthy (JBool b) = b"
| "truthy (JInt i) = (i \<noteq> 0)"
| "truthy (JFloat f) = (case f of Finite s m e \<Rightarrow> m \<noteq> 0 | Infinity s \<Rightarrow> True | NaN \<Rightarrow> True)"
| "truthy (JStr s) = (s \<noteq> [])"
| "truthy (JArr xs) = (xs \<noteq> [])"
| "truthy (JObj kv) = (kv \<noteq> [])"

text \<open>
  \<^verbatim>\<open>k in x\<close> for a string \<open>k\<close>: a key test on a dictionary, an element test on a list, a
  substring test on a string, and a \<^verbatim>\<open>TypeError\<close> on anything else.
\<close>

fun py_in :: "string \<Rightarrow> json \<Rightarrow> py_exception + bool" where
  "py_in k (JObj kv) = Inr (map_of kv k \<noteq> None)"
| "py_in k (JArr xs) = Inr (JStr k \<in> set xs)"
| "py_in k (JStr s) = Inr (sublist k s)"
| "py_in k v = Inl TypeError"

text \<open>\<^verbatim>\<open>x[k]\<close> for a string \<open>k\<close>.\<close>

fun py_getitem :: "json \<Rightarrow> string \<Rightarrow> py_exception + json" where
  "py_getitem (JObj kv) k = (case map_of kv k of None \<Rightarrow> Inl KeyError | Some v \<Rightarrow> Inr v)"
| "py_getitem v k = Inl TypeError"

text \<open>
  \<^verbatim>\<open>x[0]\<close>. The keys of a dictionary that comes from JSON are strings, so the integer 0 is
  never one of them.
\<close>

fun py_getitem0 :: "json \<Rightarrow> py_exception + json" where
  "py_getitem0 (JArr []) = Inl IndexError"
| "py_getitem0 (JArr (x # xs)) = Inr x"
| "py_getitem0 (JStr []) = Inl IndexError"
| "py_getitem0 (JStr (c # cs)) = Inr (JStr [c])"
| "py_getitem0 (JObj kv) = Inl KeyError"
| "py_getitem0 v = Inl TypeError"

text \<open>\<^verbatim>\<open>x.get(k, d)\<close>: only a dictionary has the method.\<close>

fun py_get :: "json \<Rightarrow> string \<Rightarrow> json \<Rightarrow> py_exception + json" where
  "py_get (JObj kv) k d = Inr (case map_of kv k of None \<Rightarrow> d | Some v \<Rightarrow> v)"
| "py_get v k d = Inl AttributeError"

section \<open>The response models\<close>

datatype FlightSearchRequest = FlightSearchRequest (request_flight_number: string)

record FlightInfoResponse =
  flight_number :: string
  origin :: string
  destination :: string
  departure_time :: "string option"
  arrival_time :: "string option"

datatype FlightSearchErrorResponse = FlightSearchErrorResponse (error: string)

datatype tool_result =
    LookupResult FlightInfoResponse
  | LookupFailure FlightSearchErrorResponse

text \<open>
  Validation of a field declared \<^verbatim>\<open>str\<close> and of one declared \<^verbatim>\<open>Optional[str]\<close> by
  pydantic (version 2, which the \<^verbatim>\<open>mcp\<close> package requires): among the values above only
  a string is accepted for the first, a string or \<^verbatim>\<open>None\<close> for the second.
\<close>

fun validate_str :: "json \<Rightarrow> string option" where
  "validate_str (JStr s) = Some s"
| "validate_str v = None"

fun validate_optional_str :: "json \<Rightarrow> string option option" where
  "validate_optional_str JNull = Some None"
| "validate_optional_str (JStr s) = Some (Some s)"
| "validate_optional_str v = None"

text \<open>The constructor call \<^verbatim>\<open>FlightInfoResponse(flight_number=..., ...)\<close>.\<close>

definition FlightInfoResponse_init ::
  "json \<Rightarrow> json \<Rightarrow> json \<Rightarrow> json \<Rightarrow> json \<Rightarrow> py_exception + FlightInfoResponse" where
  "FlightInfoResponse_init fn og ds dt at =
     (case (validate_str fn, validate_str og, validate_str ds,
            validate_optional_str dt, validate_optional_str at) of
        (Some a, Some b, Some c, Some x, Some y) \<Rightarrow>
          Inr \<lparr>flight_number = a, origin = b, destination = c,
               departure_time = x, arrival_time = y\<rparr>
      | _ \<Rightarrow> Inl ValidationError)"

section \<open>The world outside the program\<close>

record http_response =
  status_code :: int
  body_text :: string
  body_json :: "json option"

datatype http_call =
    HttpGet string "(string \<times> string) list"
  | HttpPost string json

text \<open>
  What the program reads from its surroundings: the environment variables, the answer of the
  provider to a GET request and of the local service to a POST request (an exception of the
  transport, or a response whose \<open>body_json\<close> is \<open>None\<close> when the body does not decode), the
  text \<^verbatim>\<open>str(e)\<close> of an exception, and the text Python prints for a float, a list or a
  dictionary.
\<close>

record world =
  getenv :: "string \<Rightarrow> string option"
  http_get :: "string \<Rightarrow> (string \<times> string) list \<Rightarrow> py_exception + http_response"
  http_post :: "string \<Rightarrow> json \<Rightarrow> py_exception + http_response"
  exc_str :: "py_exception \<Rightarrow> string"
  repr_other :: "json \<Rightarrow> string"

section \<open>Text of an integer and of a value\<close>

definition digit_char :: "nat \<Rightarrow> char" where
  "digit_char d = char_of (48 + d)"

function str_nat :: "nat \<Rightarrow> string" where
  "str_nat n = (if n < 10 then [digit_char n] else str_nat (n div 10) @ [digit_char (n mod 10)])"
  by pat_completeness auto
termination
  by (relation "measure (\<lambda>n. n)") auto

declare str_nat.simps [simp del]

definition str_int :: "int \<Rightarrow> string" where
  "str_int i = (if i < 0 then CHR ''-'' # str_nat (nat (- i)) else str_nat (nat i))"

text \<open>The text an f-string puts in for a value.\<close>

fun py_str :: "world \<Rightarrow> json \<Rightarrow> string" where
  "py_str w (JStr s) = s"
| "py_str w JNull = ''None''"
| "py_str w (JBool b) = (if b then ''True'' else ''False'')"
| "py_str w (JInt i) = str_int i"
| "py_str w v = repr_other w v"

section \<open>The lookup service: \<^verbatim>\<open>search_flight\<close>\<close>

definition FLIGHTAWARE_BASE_URL :: string where
  "FLIGHTAWARE_BASE_URL = ''https://aeroapi.flightaware.com/aeroapi/flights/''"

text \<open>\<^verbatim>\<open>flight_info.get(k1, {}).get(k2)\<close>\<close>

definition get_nested :: "json \<Rightarrow> string \<Rightarrow> string \<Rightarrow> py_exception + json" where
  "get_nested flight_info k1 k2 =
     bind_exc (py_get flight_info k1 (JObj [])) (\<lambda>inner. py_get inner k2 JNull)"

text \<open>The extraction of the five fields from the first flight and the construction of the result.\<close>

definition extract_flight_info :: "json \<Rightarrow> py_exception + FlightInfoResponse" where
  "extract_flight_info flight_info =
     bind_exc (py_get flight_info ''ident'' JNull) (\<lambda>fn.
     bind_exc (get_nested flight_info ''origin'' ''code'') (\<lambda>og.
     bind_exc (get_nested flight_info ''destination'' ''code'') (\<lambda>ds.
     bind_exc (get_nested flight_info ''actual_departure_time'' ''date'') (\<lambda>dt.
     bind_exc (get_nested flight_info ''actual_arrival_time'' ''date'') (\<lambda>at.
       FlightInfoResponse_init fn og ds dt at)))))"

text \<open>
  The test \<^verbatim>\<open>'flights' not in data or not data['flights']\<close>; the right operand is
  evaluated only when the left one is false.
\<close>

definition no_flights :: "json \<Rightarrow> py_exception + bool" where
  "no_flights data =
     bind_exc (py_in ''flights'' data) (\<lambda>present.
       if \<not> present then Inr True
       else bind_exc (py_getitem data ''flights'') (\<lambda>fl. Inr (\<not> truthy fl)))"

text \<open>What the function does with the parsed body.\<close>

definition process_data :: "json \<Rightarrow> py_exception + tool_result" where
  "process_data data =
     bind_exc (no_flights data) (\<lambda>none.
       if none then Inr (LookupFailure (FlightSearchErrorResponse ''No flight information found''))
       else bind_exc (py_getitem data ''flights'') (\<lambda>fl.
            bind_exc (py_getitem0 fl) (\<lambda>flight_info.
            bind_exc (extract_flight_info flight_info) (\<lambda>r. Inr (LookupResult r)))))"

text \<open>What the function does with the provider's response.\<close>

definition process_response :: "http_response \<Rightarrow> py_exception + tool_result" where
  "process_response response =
     (if status_code response \<noteq> 200
      then Inr (LookupFailure (FlightSearchErrorResponse
             (''FlightAware API error: '' @ str_int (status_code response) @ '' - ''
                @ body_text response)))
      else (case body_json response of
              None \<Rightarrow> Inl JSONDecodeError
            | Some data \<Rightarrow> process_data data))"

text \<open>
  The tool itself. The result is what the call returns or raises, with the outbound HTTP
  calls it has issued, in order. \<^verbatim>\<open>os.getenv\<close> gives a string or \<^verbatim>\<open>None\<close>, and
  \<^verbatim>\<open>not api_key\<close> holds of \<^verbatim>\<open>None\<close> and of the empty string. The diagnostic log
  lines have no part in the result and are left out.
\<close>

definition search_flight ::
  "world \<Rightarrow> FlightSearchRequest \<Rightarrow> (py_exception + tool_result) \<times> http_call list" where
  "search_flight w request =
     (case getenv w ''FLIGHTAWARE_API_KEY'' of
        None \<Rightarrow> (Inr (LookupFailure (FlightSearchErrorResponse ''API key is missing'')), [])
      | Some api_key \<Rightarrow>
          if api_key = []
          then (Inr (LookupFailure (FlightSearchErrorResponse ''API key is missing'')), [])
          else
            let headers = [(''x-apikey'', api_key)];
                url = FLIGHTAWARE_BASE_URL @ request_flight_number request
            in (case http_get w url headers of
                  Inl e \<Rightarrow> (Inl e, [HttpGet url headers])
                | Inr response \<Rightarrow> (process_response response, [HttpGet url headers])))"

section \<open>The presentation client: \<^verbatim>\<open>gradio_search_flight\<close>\<close>

definition search_flight_url :: string where
  "search_flight_url = ''http://127.0.0.1:8000/search_flight''"

definition newline :: string where
  "newline = [CHR 0x0A]"

text \<open>The five-line block built from the decoded body.\<close>

definition format_flight_info :: "world \<Rightarrow> json \<Rightarrow> py_exception + string" where
  "format_flight_info w flight_info =
     bind_exc (py_get flight_info ''flight_number'' (JStr ''N/A'')) (\<lambda>a.
     bind_exc (py_get flight_info ''origin'' (JStr ''N/A'')) (\<lambda>b.
     bind_exc (py_get flight_info ''destination'' (JStr ''N/A'')) (\<lambda>c.
     bind_exc (py_get flight_info ''departure_time'' (JStr ''N/A'')) (\<lambda>d.
     bind_exc (py_get flight_info ''arrival_time'' (JStr ''N/A'')) (\<lambda>e.
       Inr (''Flight Number: '' @ py_str w a @ newline
            @ ''Origin: '' @ py_str w b @ newline
            @ ''Destination: '' @ py_str w c @ newline
            @ ''Departure Time: '' @ py_str w d @ newline
            @ ''Arrival Time: '' @ py_str w e))))))"

text \<open>The statements after the request, inside the \<^verbatim>\<open>try\<close>.\<close>

definition render_data :: "world \<Rightarrow> json \<Rightarrow> py_exception + string" where
  "render_data w data =
     bind_exc (py_in ''error'' data) (\<lambda>has_error.
       if has_error
       then bind_exc (py_getitem data ''error'') (\<lambda>m. Inr (''Error: '' @ py_str w m))
       else format_flight_info w data)"

text \<open>
  \<^verbatim>\<open>raise_for_status\<close> of httpx (version 0.27 and later, which the \<^verbatim>\<open>mcp\<close> package
  requires) raises unless the status code is one of 200 to 299.
\<close>

definition raise_for_status :: "http_response \<Rightarrow> py_exception + unit" where
  "raise_for_status response =
     (if 200 \<le> status_code response \<and> status_code response \<le> 299 then Inr ()
      else Inl (HTTPStatusError (status_code response)))"

text \<open>The body of the \<^verbatim>\<open>try\<close> statement.\<close>

definition gradio_try :: "world \<Rightarrow> string \<Rightarrow> (py_exception + string) \<times> http_call list" where
  "gradio_try w flight_no =
     (let payload = JObj [(''flight_number'', JStr flight_no)];
          url = search_flight_url
      in (bind_exc (http_post w url payload) (\<lambda>response.
          bind_exc (raise_for_status response) (\<lambda>u.
            case body_json response of
              None \<Rightarrow> Inl JSONDecodeError
            | Some data \<Rightarrow> render_data w data)),
          [HttpPost url payload]))"

text \<open>
  The whole function: the guard on the empty input, the \<^verbatim>\<open>try\<close> and its two handlers.
\<close>

definition gradio_search_flight ::
  "world \<Rightarrow> string \<Rightarrow> (py_exception + string) \<times> http_call list" where
  "gradio_search_flight w flight_no =
     (if flight_no = [] then (Inr ''Please enter a flight number.'', [])
      else
        (case gradio_try w flight_no of
           (Inr s, calls) \<Rightarrow> (Inr s, calls)
         | (Inl e, calls) \<Rightarrow>
             if is_RequestError e
             then (Inr (''An error occurred while requesting flight information: ''
                        @ exc_str w e), calls)
             else (Inr (''An unexpected error occurred: '' @ exc_str w e), calls)))"

section \<open>Concrete runs\<close>

text \<open>
  A world for the concrete runs below: the key of the environment, the provider's answer to
  the request for flight UAL123 made with the key \<^verbatim>\<open>secret\<close>, and the local service's
  answer to the client's POST.
\<close>

fun sample_exc_str :: "py_exception \<Rightarrow> string" where
  "sample_exc_str (RequestError m) = m"
| "sample_exc_str (OtherException m) = m"
| "sample_exc_str (HTTPStatusError c) = ''status '' @ str_int c"
| "sample_exc_str e = ''error''"

definition sample_world ::
  "string option \<Rightarrow> py_exception + http_response \<Rightarrow> py_exception + http_response \<Rightarrow> world" where
  "sample_world key provider service =
     \<lparr>getenv = (\<lambda>name. if name = ''FLIGHTAWARE_API_KEY'' then key else None),
      http_get = (\<lambda>url headers.
        if url = ''https://aeroapi.flightaware.com/aeroapi/flights/UAL123''
             \<and> headers = [(''x-apikey'', ''secret'')]
        then provider else Inl (RequestError ''unreachable'')),
      http_post = (\<lambda>url payload.
        if url = ''http://127.0.0.1:8000/search_flight''
             \<and> payload = JObj [(''flight_number'', JStr ''UAL123'')]
        then service else Inl (RequestError ''unreachable'')),
      exc_str = sample_exc_str,
      repr_other = (\<lambda>v. ''...'')\<rparr>"

definition no_answer :: "py_exception + http_response" where
  "no_answer = Inl (RequestError ''All connection attempts failed'')"

definition UAL123 :: FlightSearchRequest where
  "UAL123 = FlightSearchRequest ''UAL123''"

definition provider_world :: "http_response \<Rightarrow> world" where
  "provider_world response = sample_world (Some ''secret'') (Inr response) no_answer"

definition service_world :: "py_exception + http_response \<Rightarrow> world" where
  "service_world service = sample_world None no_answer service"

definition not_found_response :: http_response where
  \<open>not_found_response =
     \<lparr>status_code = 404, body_text = ''{"title": "Not Found"}'',
      body_json = Some (JObj [(''title'', JStr ''Not Found'')])\<rparr>\<close>

definition empty_flights_response :: http_response where
  \<open>empty_flights_response =
     \<lparr>status_code = 200, body_text = ''{"flights": []}'',
      body_json = Some (JObj [(''flights'', JArr [])])\<rparr>\<close>

text \<open>A status-200 answer whose body is the JSON value null.\<close>

definition null_body_response :: http_response where
  "null_body_response = \<lparr>status_code = 200, body_text = ''null'', body_json = Some JNull\<rparr>"

definition flights_response :: "string \<Rightarrow> json list \<Rightarrow> http_response" where
  "flights_response raw flights =
     \<lparr>status_code = 200, body_text = raw,
      body_json = Some (JObj [(''flights'', JArr flights)])\<rparr>"

text \<open>The provider's answer in the example of the specification.\<close>

definition example_flight :: "(string \<times> json) list" where
  "example_flight =
     [(''ident'', JStr ''UAL123''),
      (''origin'', JObj [(''code'', JStr ''SFO'')]),
      (''destination'', JObj [(''code'', JStr ''ORD'')]),
      (''actual_departure_time'', JObj [(''date'', JStr ''2024-01-01T10:00Z'')]),
      (''actual_arrival_time'', JObj [])]"

definition example_response :: http_response where
  \<open>example_response = flights_response
     ''{"flights":[{"ident":"UAL123","origin":{"code":"SFO"},"destination":{"code":"ORD"},"actual_departure_time":{"date":"2024-01-01T10:00Z"},"actual_arrival_time":{}}]}''
     [JObj example_flight]\<close>

text \<open>Two flights, the first with all five nested keys.\<close>

definition landed_flight :: "(string \<times> json) list" where
  "landed_flight =
     [(''ident'', JStr ''UAL123''),
      (''origin'', JObj [(''code'', JStr ''SFO'')]),
      (''destination'', JObj [(''code'', JStr ''ORD'')]),
      (''actual_departure_time'', JObj [(''date'', JStr ''2024-01-01T10:00Z'')]),
      (''actual_arrival_time'', JObj [(''date'', JStr ''2024-01-01T14:05Z'')])]"

definition earlier_flight :: "(string \<times> json) list" where
  "earlier_flight =
     [(''ident'', JStr ''UAL123''),
      (''origin'', JObj [(''code'', JStr ''EWR'')]),
      (''destination'', JObj [(''code'', JStr ''SFO'')]),
      (''actual_departure_time'', JObj [(''date'', JStr ''2023-12-31T08:00Z'')]),
      (''actual_arrival_time'', JObj [(''date'', JStr ''2023-12-31T14:30Z'')])]"

definition two_flights_response :: http_response where
  \<open>two_flights_response = flights_response
     ''{"flights":[{"ident":"UAL123","origin":{"code":"SFO"},"destination":{"code":"ORD"},"actual_departure_time":{"date":"2024-01-01T10:00Z"},"actual_arrival_time":{"date":"2024-01-01T14:05Z"}},{"ident":"UAL123","origin":{"code":"EWR"},"destination":{"code":"SFO"},"actual_departure_time":{"date":"2023-12-31T08:00Z"},"actual_arrival_time":{"date":"2023-12-31T14:30Z"}}]}''
     [JObj landed_flight, JObj earlier_flight]\<close>

text \<open>A first flight without the key \<^verbatim>\<open>ident\<close>.\<close>

definition missing_ident_flight :: "(string \<times> json) list" where
  "missing_ident_flight =
     [(''origin'', JObj [(''code'', JStr ''SFO'')]),
      (''destination'', JObj [(''code'', JStr ''ORD'')]),
      (''actual_departure_time'', JObj [(''date'', JStr ''2024-01-01T10:00Z'')]),
      (''actual_arrival_time'', JObj [(''date'', JStr ''2024-01-01T14:05Z'')])]"

definition missing_ident_response :: http_response where
  \<open>missing_ident_response = flights_response
     ''{"flights":[{"origin":{"code":"SFO"},"destination":{"code":"ORD"},"actual_departure_time":{"date":"2024-01-01T10:00Z"},"actual_arrival_time":{"date":"2024-01-01T14:05Z"}}]}''
     [JObj missing_ident_flight]\<close>

text \<open>A first flight without either time: one key is absent, the other has no date.\<close>

definition scheduled_flight :: "(string \<times> json) list" where
  "scheduled_flight =
     [(''ident'', JStr ''UAL123''),
      (''origin'', JObj [(''code'', JStr ''SFO'')]),
      (''destination'', JObj [(''code'', JStr ''ORD'')]),
      (''actual_arrival_time'', JObj [])]"

definition scheduled_response :: http_response where
  \<open>scheduled_response = flights_response
     ''{"flights":[{"ident":"UAL123","origin":{"code":"SFO"},"destination":{"code":"ORD"},"actual_arrival_time":{}}]}''
     [JObj scheduled_flight]\<close>

text \<open>A first flight with all five nested keys, \<^verbatim>\<open>ident\<close> bound to null.\<close>

definition null_ident_flight :: "(string \<times> json) list" where
  "null_ident_flight =
     [(''ident'', JNull),
      (''origin'', JObj [(''code'', JStr ''SFO'')]),
      (''destination'', JObj [(''code'', JStr ''ORD'')]),
      (''actual_departure_time'', JObj [(''date'', JStr ''2024-01-01T10:00Z'')]),
      (''actual_arrival_time'', JObj [(''date'', JStr ''2024-01-01T14:05Z'')])]"

definition null_ident_response :: http_response where
  \<open>null_ident_response = flights_response
     ''{"flights":[{"ident":null,"origin":{"code":"SFO"},"destination":{"code":"ORD"},"actual_departure_time":{"date":"2024-01-01T10:00Z"},"actual_arrival_time":{"date":"2024-01-01T14:05Z"}}]}''
     [JObj null_ident_flight]\<close>

text \<open>A first flight whose \<^verbatim>\<open>origin\<close> is null.\<close>

definition null_origin_flight :: "(string \<times> json) list" where
  "null_origin_flight =
     [(''ident'', JStr ''UAL123''),
      (''origin'', JNull),
      (''destination'', JObj [(''code'', JStr ''ORD'')]),
      (''actual_departure_time'', JObj [(''date'', JStr ''2024-01-01T10:00Z'')]),
      (''actual_arrival_time'', JObj [])]"

definition null_origin_response :: http_response where
  \<open>null_origin_response = flights_response
     ''{"flights":[{"ident":"UAL123","origin":null,"destination":{"code":"ORD"},"actual_departure_time":{"date":"2024-01-01T10:00Z"},"actual_arrival_time":{}}]}''
     [JObj null_origin_flight]\<close>

text \<open>
  The local service's answer to the client: the result of the specification's example as
  JSON, the arrival time being null.
\<close>

definition lookup_result_response :: http_response where
  \<open>lookup_result_response =
     \<lparr>status_code = 200,
      body_text = ''{"flight_number":"UAL123","origin":"SFO","destination":"ORD","departure_time":"2024-01-01T10:00Z","arrival_time":null}'',
      body_json = Some (JObj
        [(''flight_number'', JStr ''UAL123''),
         (''origin'', JStr ''SFO''),
         (''destination'', JStr ''ORD''),
         (''departure_time'', JStr ''2024-01-01T10:00Z''),
         (''arrival_time'', JNull)])\<rparr>\<close>

section \<open>Vocabulary of the properties\<close>

text \<open>
  The provider answers the request of \<open>search_flight\<close> with a response: a non-empty key is
  configured and the GET request built from it and from the flight number is answered.
\<close>

definition provider_answers :: "world \<Rightarrow> FlightSearchRequest \<Rightarrow> http_response \<Rightarrow> bool" where
  "provider_answers w request response =
     (case getenv w ''FLIGHTAWARE_API_KEY'' of
        None \<Rightarrow> False
      | Some api_key \<Rightarrow>
          api_key \<noteq> [] \<and>
          http_get w (FLIGHTAWARE_BASE_URL @ request_flight_number request)
            [(''x-apikey'', api_key)] = Inr response)"

text \<open>
  The response has status 200 and its body is a JSON object whose \<^verbatim>\<open>flights\<close> is a list
  with the given first element and the given other elements.
\<close>

definition has_flights :: "http_response \<Rightarrow> json \<Rightarrow> json list \<Rightarrow> bool" where
  "has_flights response first others =
     (status_code response = 200 \<and>
      (case body_json response of
         Some (JObj payload) \<Rightarrow> map_of payload ''flights'' = Some (JArr (first # others))
       | _ \<Rightarrow> False))"

text \<open>The four keys of a flight under which the program looks for a nested object.\<close>

definition nested_keys :: "string list" where
  "nested_keys = [''origin'', ''destination'', ''actual_departure_time'', ''actual_arrival_time'']"

fun is_dict :: "json \<Rightarrow> bool" where
  "is_dict (JObj kv) = True"
| "is_dict v = False"

text \<open>The key is bound in the flight, to something that is not a JSON object.\<close>

definition bound_to_non_dict :: "(string \<times> json) list \<Rightarrow> string \<Rightarrow> bool" where
  "bound_to_non_dict flight k = (case map_of flight k of None \<Rightarrow> False | Some v \<Rightarrow> \<not> is_dict v)"

text \<open>
  The nested key \<open>k1.k2\<close> is missing from the flight: \<open>k1\<close> is absent, or it is bound to an
  object without \<open>k2\<close>.
\<close>

definition nested_missing :: "(string \<times> json) list \<Rightarrow> string \<Rightarrow> string \<Rightarrow> bool" where
  "nested_missing flight k1 k2 =
     (case map_of flight k1 of
        None \<Rightarrow> True
      | Some (JObj inner) \<Rightarrow> map_of inner k2 = None
      | Some v \<Rightarrow> False)"

text \<open>The nested key \<open>k1.k2\<close> is present in the flight, with value \<open>v\<close>.\<close>

definition nested_value :: "(string \<times> json) list \<Rightarrow> string \<Rightarrow> string \<Rightarrow> json \<Rightarrow> bool" where
  "nested_value flight k1 k2 v =
     (case map_of flight k1 of
        Some (JObj inner) \<Rightarrow> map_of inner k2 = Some v
      | _ \<Rightarrow> False)"

section \<open>Properties of the lookup service\<close>

lemmas sample_defs = sample_world_def provider_world_def service_world_def no_answer_def
  UAL123_def flights_response_def

lemma search_flight_answered:
  assumes "provider_answers w request response"
  shows "fst (search_flight w request) = process_response response"
  using assms
  by (auto simp: provider_answers_def search_flight_def split: option.splits)

lemma process_response_flights:
  assumes "has_flights response first others"
  shows "process_response response =
           bind_exc (extract_flight_info first) (\<lambda>r. Inr (LookupResult r))"
  using assms
  by (auto simp: has_flights_def process_response_def process_data_def no_flights_def
      bind_exc_def split: option.splits json.splits)

lemma provider_world_answers: "provider_answers (provider_world response) UAL123 response"
  by (simp add: provider_answers_def sample_defs FLIGHTAWARE_BASE_URL_def)

lemma get_nested_missing:
  "nested_missing flight k1 k2 \<Longrightarrow> get_nested (JObj flight) k1 k2 = Inr JNull"
  by (auto simp: nested_missing_def get_nested_def bind_exc_def split: option.splits json.splits)

lemma get_nested_value:
  "nested_value flight k1 k2 v \<Longrightarrow> get_nested (JObj flight) k1 k2 = Inr v"
  by (auto simp: nested_value_def get_nested_def bind_exc_def split: option.splits json.splits)

lemma get_nested_non_dict:
  "bound_to_non_dict flight k1 \<Longrightarrow> get_nested (JObj flight) k1 k2 = Inl AttributeError"
  by (cases "map_of flight k1"; cases "the (map_of flight k1)")
     (auto simp: bound_to_non_dict_def get_nested_def bind_exc_def)

lemma get_nested_dict:
  "\<not> bound_to_non_dict flight k1 \<Longrightarrow> \<exists>v. get_nested (JObj flight) k1 k2 = Inr v"
  by (cases "map_of flight k1"; cases "the (map_of flight k1)")
     (auto simp: bound_to_non_dict_def get_nested_def bind_exc_def)

text \<open>
  C5. When the environment holds no \<^verbatim>\<open>FLIGHTAWARE_API_KEY\<close>, \<open>search_flight\<close> returns, for
  every request, the failure with message "API key is missing"; it raises nothing and the
  list of its outbound calls is empty.
\<close>

theorem api_key_absent:
  assumes "getenv w ''FLIGHTAWARE_API_KEY'' = None"
  shows "search_flight w request =
           (Inr (LookupFailure (FlightSearchErrorResponse ''API key is missing'')), [])"
  using assms by (simp add: search_flight_def)

theorem api_key_absent_witness:
  "getenv (sample_world None no_answer no_answer) ''FLIGHTAWARE_API_KEY'' = None
   \<and> search_flight (sample_world None no_answer no_answer) UAL123 =
       (Inr (LookupFailure (FlightSearchErrorResponse ''API key is missing'')), [])"
proof -
  have h: "getenv (sample_world None no_answer no_answer) ''FLIGHTAWARE_API_KEY'' = None"
    by (simp add: sample_world_def)
  show ?thesis using h api_key_absent [OF h, of UAL123] by simp
qed

text \<open>
  C9. A key that is set to the empty string is treated as an absent one: the same failure is
  returned and no outbound call is issued.
\<close>

theorem api_key_empty:
  assumes "getenv w ''FLIGHTAWARE_API_KEY'' = Some []"
  shows "search_flight w request =
           (Inr (LookupFailure (FlightSearchErrorResponse ''API key is missing'')), [])"
  using assms by (simp add: search_flight_def)

theorem api_key_empty_witness:
  "getenv (sample_world (Some []) no_answer no_answer) ''FLIGHTAWARE_API_KEY'' = Some []
   \<and> search_flight (sample_world (Some []) no_answer no_answer) UAL123 =
       (Inr (LookupFailure (FlightSearchErrorResponse ''API key is missing'')), [])"
proof -
  have h: "getenv (sample_world (Some []) no_answer no_answer) ''FLIGHTAWARE_API_KEY'' = Some []"
    by (simp add: sample_world_def)
  show ?thesis using h api_key_empty [OF h, of UAL123] by simp
qed

text \<open>
  C4, as amended. When the provider answers with status 200 and a body that is a JSON object
  without the key \<^verbatim>\<open>flights\<close>, or a JSON object whose \<^verbatim>\<open>flights\<close> is the empty list,
  \<open>search_flight\<close> returns the failure with message "No flight information found", and so
  not the success variant.
\<close>

theorem no_flights_reported:
  assumes "provider_answers w request response"
    and "status_code response = 200"
    and "body_json response = Some (JObj payload)"
    and "map_of payload ''flights'' = None \<or> map_of payload ''flights'' = Some (JArr [])"
  shows "fst (search_flight w request) =
           Inr (LookupFailure (FlightSearchErrorResponse ''No flight information found''))"
proof -
  have "no_flights (JObj payload) = Inr True"
    using assms(4) by (auto simp: no_flights_def bind_exc_def)
  then have "process_data (JObj payload) =
      Inr (LookupFailure (FlightSearchErrorResponse ''No flight information found''))"
    by (simp add: process_data_def bind_exc_def)
  then have "process_response response =
      Inr (LookupFailure (FlightSearchErrorResponse ''No flight information found''))"
    using assms(2,3) by (simp add: process_response_def)
  then show ?thesis
    using search_flight_answered [OF assms(1)] by simp
qed

theorem no_flights_reported_witness:
  "fst (search_flight (provider_world empty_flights_response) UAL123) =
     Inr (LookupFailure (FlightSearchErrorResponse ''No flight information found''))"
  using no_flights_reported [OF provider_world_answers,
      of empty_flights_response "[(''flights'', JArr [])]"]
  by (simp add: empty_flights_response_def)

text \<open>
  C4, as stated, fails: a status-200 body that is the JSON value null has no \<^verbatim>\<open>flights\<close>
  key, and on it the test \<^verbatim>\<open>'flights' not in data\<close> raises \<^verbatim>\<open>TypeError\<close>; no failure
  variant is returned.
\<close>

theorem null_body_counterexample:
  "fst (search_flight (provider_world null_body_response) UAL123) = Inl TypeError"
  using search_flight_answered [OF provider_world_answers, of null_body_response]
  by (simp add: null_body_response_def process_response_def process_data_def no_flights_def
      bind_exc_def)

text \<open>
  C6. When the provider answers with a status code other than 200, \<open>search_flight\<close> returns a
  failure whose message is "FlightAware API error: ", the status code in decimal, " - " and
  the raw body; so the message contains the status code and the body text.
\<close>

theorem provider_error_reported:
  assumes "provider_answers w request response"
    and "status_code response \<noteq> 200"
  shows "\<exists>msg. fst (search_flight w request) = Inr (LookupFailure (FlightSearchErrorResponse msg))
           \<and> msg = ''FlightAware API error: '' @ str_int (status_code response) @ '' - ''
                     @ body_text response
           \<and> sublist (str_int (status_code response)) msg
           \<and> sublist (body_text response) msg"
proof -
  let ?msg = "''FlightAware API error: '' @ str_int (status_code response) @ '' - ''
                @ body_text response"
  have r: "fst (search_flight w request) = Inr (LookupFailure (FlightSearchErrorResponse ?msg))"
    using search_flight_answered [OF assms(1)] assms(2) by (simp add: process_response_def)
  have s1: "sublist (str_int (status_code response)) ?msg"
    by (rule sublist_appendI)
  have "?msg = (''FlightAware API error: '' @ str_int (status_code response) @ '' - '')
                 @ body_text response @ []"
    by simp
  then have s2: "sublist (body_text response) ?msg"
    using sublist_appendI [of "body_text response"
        "''FlightAware API error: '' @ str_int (status_code response) @ '' - ''" "[]"]
    by simp
  from r s1 s2 show ?thesis by blast
qed

theorem provider_error_reported_witness:
  \<open>fst (search_flight (provider_world not_found_response) UAL123) =
     Inr (LookupFailure (FlightSearchErrorResponse
            ''FlightAware API error: 404 - {"title": "Not Found"}''))\<close>
proof -
  have n: "status_code not_found_response \<noteq> 200"
    by (simp add: not_found_response_def)
  have s: "str_int 404 = ''404''"
    by code_simp
  show ?thesis
    using provider_error_reported [OF provider_world_answers n] s
    by (simp add: not_found_response_def)
qed

lemma extract_flight_info_strings:
  assumes "map_of flight ''ident'' = Some (JStr fnum)"
    and "get_nested (JObj flight) ''origin'' ''code'' = Inr (JStr orig)"
    and "get_nested (JObj flight) ''destination'' ''code'' = Inr (JStr dest)"
    and "get_nested (JObj flight) ''actual_departure_time'' ''date'' = Inr dv"
    and "get_nested (JObj flight) ''actual_arrival_time'' ''date'' = Inr av"
    and "validate_optional_str dv = Some dep"
    and "validate_optional_str av = Some arr"
  shows "extract_flight_info (JObj flight) =
           Inr \<lparr>flight_number = fnum, origin = orig, destination = dest,
                departure_time = dep, arrival_time = arr\<rparr>"
  using assms by (simp add: extract_flight_info_def bind_exc_def FlightInfoResponse_init_def)

lemma search_flight_first:
  assumes "provider_answers w request response"
    and "has_flights response first others"
  shows "fst (search_flight w request) =
           bind_exc (extract_flight_info first) (\<lambda>r. Inr (LookupResult r))"
  using search_flight_answered [OF assms(1)] process_response_flights [OF assms(2)] by simp

lemma provider_world_has_flights:
  "has_flights (flights_response raw (first # others)) first others"
  by (simp add: has_flights_def flights_response_def)

lemma get_nested_time:
  assumes "nested_missing flight k1 k2 \<or> nested_value flight k1 k2 JNull
           \<or> nested_value flight k1 k2 (JStr s)"
  shows "get_nested (JObj flight) k1 k2 =
           Inr (if nested_missing flight k1 k2 \<or> nested_value flight k1 k2 JNull then JNull
                else JStr s)"
  using assms
  by (auto simp: nested_missing_def nested_value_def get_nested_def bind_exc_def
      split: option.splits json.splits)

text \<open>
  C1, as amended. When the provider answers with status 200 and a JSON object whose
  \<^verbatim>\<open>flights\<close> is a non-empty list, the first element of which is an object with strings
  under \<^verbatim>\<open>ident\<close>, \<^verbatim>\<open>origin.code\<close> and \<^verbatim>\<open>destination.code\<close>, and in which each of the
  two nested time keys \<^verbatim>\<open>actual_departure_time.date\<close> and \<^verbatim>\<open>actual_arrival_time.date\<close>
  is either missing (the outer key is absent, or bound to an object without \<^verbatim>\<open>date\<close>) or
  bound to null or to a string, \<open>search_flight\<close> returns the success variant; a time whose
  nested key is missing is null in it, and so is one bound to null.
\<close>

theorem missing_time_is_null:
  assumes "provider_answers w request response"
    and "has_flights response (JObj flight) others"
    and "map_of flight ''ident'' = Some (JStr fnum)"
    and "nested_value flight ''origin'' ''code'' (JStr orig)"
    and "nested_value flight ''destination'' ''code'' (JStr dest)"
    and "nested_missing flight ''actual_departure_time'' ''date''
         \<or> nested_value flight ''actual_departure_time'' ''date'' JNull
         \<or> nested_value flight ''actual_departure_time'' ''date'' (JStr dep)"
    and "nested_missing flight ''actual_arrival_time'' ''date''
         \<or> nested_value flight ''actual_arrival_time'' ''date'' JNull
         \<or> nested_value flight ''actual_arrival_time'' ''date'' (JStr arr)"
  shows "fst (search_flight w request) =
           Inr (LookupResult
             \<lparr>flight_number = fnum, origin = orig, destination = dest,
              departure_time =
                (if nested_missing flight ''actual_departure_time'' ''date''
                    \<or> nested_value flight ''actual_departure_time'' ''date'' JNull
                 then None else Some dep),
              arrival_time =
                (if nested_missing flight ''actual_arrival_time'' ''date''
                    \<or> nested_value flight ''actual_arrival_time'' ''date'' JNull
                 then None else Some arr)\<rparr>)"
proof -
  have "extract_flight_info (JObj flight) =
          Inr \<lparr>flight_number = fnum, origin = orig, destination = dest,
               departure_time =
                 (if nested_missing flight ''actual_departure_time'' ''date''
                     \<or> nested_value flight ''actual_departure_time'' ''date'' JNull
                  then None else Some dep),
               arrival_time =
                 (if nested_missing flight ''actual_arrival_time'' ''date''
                     \<or> nested_value flight ''actual_arrival_time'' ''date'' JNull
                  then None else Some arr)\<rparr>"
    by (rule extract_flight_info_strings [OF assms(3) get_nested_value [OF assms(4)]
          get_nested_value [OF assms(5)] get_nested_time [OF assms(6)]
          get_nested_time [OF assms(7)]]) simp_all
  then show ?thesis
    using search_flight_first [OF assms(1,2)] by (simp add: bind_exc_def)
qed

theorem missing_time_is_null_witness:
  "fst (search_flight (provider_world scheduled_response) UAL123) =
     Inr (LookupResult
       \<lparr>flight_number = ''UAL123'', origin = ''SFO'', destination = ''ORD'',
        departure_time = None, arrival_time = None\<rparr>)"
proof -
  have h: "has_flights scheduled_response (JObj scheduled_flight) []"
    unfolding scheduled_response_def by (rule provider_world_has_flights)
  show ?thesis
    using missing_time_is_null [OF provider_world_answers h,
        of "''UAL123''" "''SFO''" "''ORD''" "[]" "[]"]
    by (simp add: scheduled_flight_def nested_value_def nested_missing_def)
qed

text \<open>
  C1, as stated, fails: a first element without \<^verbatim>\<open>ident\<close> does not give a success variant
  with a null flight number, the construction of the result raises.
\<close>

theorem missing_ident_counterexample:
  "fst (search_flight (provider_world missing_ident_response) UAL123) = Inl ValidationError"
  using search_flight_first [OF provider_world_answers, of missing_ident_response
      "JObj missing_ident_flight" "[]"]
  by (simp add: missing_ident_response_def provider_world_has_flights missing_ident_flight_def
      extract_flight_info_def get_nested_def bind_exc_def FlightInfoResponse_init_def)

text \<open>
  C2, as amended. When the provider answers with status 200 and a non-empty \<^verbatim>\<open>flights\<close>
  list whose first element has all five nested keys, with strings under \<^verbatim>\<open>ident\<close>,
  \<^verbatim>\<open>origin.code\<close> and \<^verbatim>\<open>destination.code\<close> and a string or null under each of the two
  dates, \<open>search_flight\<close> returns the success variant whose five fields are these values,
  whatever the other elements of the list are. For the example of the specification the
  result is the one given there.
\<close>

theorem first_flight_mapped:
  assumes "provider_answers w request response"
    and "has_flights response (JObj flight) others"
    and "map_of flight ''ident'' = Some (JStr fnum)"
    and "nested_value flight ''origin'' ''code'' (JStr orig)"
    and "nested_value flight ''destination'' ''code'' (JStr dest)"
    and "nested_value flight ''actual_departure_time'' ''date'' dv"
    and "nested_value flight ''actual_arrival_time'' ''date'' av"
    and "dv = JNull \<or> dv = JStr dep"
    and "av = JNull \<or> av = JStr arr"
  shows "fst (search_flight w request) =
           Inr (LookupResult
             \<lparr>flight_number = fnum, origin = orig, destination = dest,
              departure_time = (if dv = JNull then None else Some dep),
              arrival_time = (if av = JNull then None else Some arr)\<rparr>)
         \<and> fst (search_flight (provider_world example_response) UAL123) =
           Inr (LookupResult
             \<lparr>flight_number = ''UAL123'', origin = ''SFO'', destination = ''ORD'',
              departure_time = Some ''2024-01-01T10:00Z'', arrival_time = None\<rparr>)"
proof
  have d: "validate_optional_str dv = Some (if dv = JNull then None else Some dep)"
    using assms(8) by auto
  have a: "validate_optional_str av = Some (if av = JNull then None else Some arr)"
    using assms(9) by auto
  have "extract_flight_info (JObj flight) =
          Inr \<lparr>flight_number = fnum, origin = orig, destination = dest,
               departure_time = (if dv = JNull then None else Some dep),
               arrival_time = (if av = JNull then None else Some arr)\<rparr>"
    by (rule extract_flight_info_strings [OF assms(3) get_nested_value [OF assms(4)]
          get_nested_value [OF assms(5)] get_nested_value [OF assms(6)]
          get_nested_value [OF assms(7)] d a])
  then show "fst (search_flight w request) =
           Inr (LookupResult
             \<lparr>flight_number = fnum, origin = orig, destination = dest,
              departure_time = (if dv = JNull then None else Some dep),
              arrival_time = (if av = JNull then None else Some arr)\<rparr>)"
    using search_flight_first [OF assms(1,2)] by (simp add: bind_exc_def)
next
  have h: "has_flights example_response (JObj example_flight) []"
    unfolding example_response_def by (rule provider_world_has_flights)
  show "fst (search_flight (provider_world example_response) UAL123) =
           Inr (LookupResult
             \<lparr>flight_number = ''UAL123'', origin = ''SFO'', destination = ''ORD'',
              departure_time = Some ''2024-01-01T10:00Z'', arrival_time = None\<rparr>)"
    using search_flight_first [OF provider_world_answers h]
    by (simp add: example_flight_def extract_flight_info_def get_nested_def bind_exc_def
        FlightInfoResponse_init_def)
qed

theorem first_flight_mapped_witness:
  "fst (search_flight (provider_world two_flights_response) UAL123) =
     Inr (LookupResult
       \<lparr>flight_number = ''UAL123'', origin = ''SFO'', destination = ''ORD'',
        departure_time = Some ''2024-01-01T10:00Z'',
        arrival_time = Some ''2024-01-01T14:05Z''\<rparr>)"
proof -
  have h: "has_flights two_flights_response (JObj landed_flight) [JObj earlier_flight]"
    unfolding two_flights_response_def by (rule provider_world_has_flights)
  show ?thesis
    using first_flight_mapped [OF provider_world_answers h,
        of "''UAL123''" "''SFO''" "''ORD''" "JStr ''2024-01-01T10:00Z''"
           "JStr ''2024-01-01T14:05Z''" "''2024-01-01T10:00Z''" "''2024-01-01T14:05Z''"]
    by (simp add: landed_flight_def nested_value_def)
qed

text \<open>
  C2, as stated, fails: a first element with all five nested keys whose \<^verbatim>\<open>ident\<close> is
  null does not give a success variant, the construction of the result raises.
\<close>

theorem null_ident_counterexample:
  "fst (search_flight (provider_world null_ident_response) UAL123) = Inl ValidationError"
  using search_flight_first [OF provider_world_answers, of null_ident_response
      "JObj null_ident_flight" "[]"]
  by (simp add: null_ident_response_def provider_world_has_flights null_ident_flight_def
      extract_flight_info_def get_nested_def bind_exc_def FlightInfoResponse_init_def)

text \<open>
  C10. The extraction is safe only when each of \<^verbatim>\<open>origin\<close>, \<^verbatim>\<open>destination\<close>,
  \<^verbatim>\<open>actual_departure_time\<close> and \<^verbatim>\<open>actual_arrival_time\<close> is absent or bound to an object:
  \<open>search_flight\<close> raises \<^verbatim>\<open>AttributeError\<close> exactly when the first flight binds one of
  them to something else, and so in particular when it binds one of them to null; then
  neither result variant is produced.
\<close>

theorem non_dict_nested_raises:
  assumes "provider_answers w request response"
    and "has_flights response (JObj flight) others"
  shows "(fst (search_flight w request) = Inl AttributeError
           \<longleftrightarrow> (\<exists>k \<in> set nested_keys. bound_to_non_dict flight k))
         \<and> (\<forall>k \<in> set nested_keys. map_of flight k = Some JNull
               \<longrightarrow> fst (search_flight w request) = Inl AttributeError)"
proof -
  let ?o = "bound_to_non_dict flight ''origin''"
  let ?d = "bound_to_non_dict flight ''destination''"
  let ?p = "bound_to_non_dict flight ''actual_departure_time''"
  let ?a = "bound_to_non_dict flight ''actual_arrival_time''"
  have keys: "(\<exists>k \<in> set nested_keys. bound_to_non_dict flight k) \<longleftrightarrow> ?o \<or> ?d \<or> ?p \<or> ?a"
    by (simp add: nested_keys_def)
  have init: "FlightInfoResponse_init a b c d e \<noteq> Inl AttributeError" for a b c d e
    by (simp add: FlightInfoResponse_init_def split: option.splits)
  have ex: "extract_flight_info (JObj flight) = Inl AttributeError \<longleftrightarrow> ?o \<or> ?d \<or> ?p \<or> ?a"
  proof (cases ?o)
    case True
    then show ?thesis
      by (simp add: extract_flight_info_def bind_exc_def get_nested_non_dict)
  next
    case no: False
    then obtain ov where ov: "get_nested (JObj flight) ''origin'' ''code'' = Inr ov"
      using get_nested_dict by blast
    show ?thesis
    proof (cases ?d)
      case True
      then show ?thesis
        by (simp add: extract_flight_info_def bind_exc_def ov get_nested_non_dict)
    next
      case nd: False
      then obtain dv where dv: "get_nested (JObj flight) ''destination'' ''code'' = Inr dv"
        using get_nested_dict by blast
      show ?thesis
      proof (cases ?p)
        case True
        then show ?thesis
          by (simp add: extract_flight_info_def bind_exc_def ov dv get_nested_non_dict)
      next
        case np: False
        then obtain pv where
          pv: "get_nested (JObj flight) ''actual_departure_time'' ''date'' = Inr pv"
          using get_nested_dict by blast
        show ?thesis
        proof (cases ?a)
          case True
          then show ?thesis
            by (simp add: extract_flight_info_def bind_exc_def ov dv pv get_nested_non_dict)
        next
          case na: False
          then obtain av where
            av: "get_nested (JObj flight) ''actual_arrival_time'' ''date'' = Inr av"
            using get_nested_dict by blast
          show ?thesis
            using no nd np na init
            by (simp add: extract_flight_info_def bind_exc_def ov dv pv av)
        qed
      qed
    qed
  qed
  have run: "fst (search_flight w request) = Inl AttributeError
               \<longleftrightarrow> extract_flight_info (JObj flight) = Inl AttributeError"
    using search_flight_first [OF assms]
    by (cases "extract_flight_info (JObj flight)") (simp_all add: bind_exc_def)
  have null: "map_of flight k = Some JNull \<Longrightarrow> bound_to_non_dict flight k" for k
    by (simp add: bound_to_non_dict_def)
  from run ex keys null show ?thesis by blast
qed

theorem non_dict_nested_raises_witness:
  "map_of null_origin_flight ''origin'' = Some JNull
   \<and> fst (search_flight (provider_world null_origin_response) UAL123) = Inl AttributeError"
proof -
  have h: "has_flights null_origin_response (JObj null_origin_flight) []"
    unfolding null_origin_response_def by (rule provider_world_has_flights)
  have n: "map_of null_origin_flight ''origin'' = Some JNull"
    by (simp add: null_origin_flight_def)
  show ?thesis
    using non_dict_nested_raises [OF provider_world_answers h] n
    by (simp add: nested_keys_def)
qed

section \<open>Properties of the presentation client\<close>

lemma gradio_try_post_fails:
  assumes "http_post w search_flight_url (JObj [(''flight_number'', JStr flight_no)]) = Inl e"
  shows "fst (gradio_try w flight_no) = Inl e"
  using assms by (simp add: gradio_try_def bind_exc_def)

lemma gradio_try_calls:
  "snd (gradio_try w flight_no) =
     [HttpPost search_flight_url (JObj [(''flight_number'', JStr flight_no)])]"
  by (simp add: gradio_try_def Let_def)

lemma gradio_search_flight_raised:
  assumes "flight_no \<noteq> []" and "fst (gradio_try w flight_no) = Inl e"
  shows "fst (gradio_search_flight w flight_no) =
           Inr ((if is_RequestError e
                 then ''An error occurred while requesting flight information: ''
                 else ''An unexpected error occurred: '') @ exc_str w e)"
  using assms
  by (cases "gradio_try w flight_no") (simp add: gradio_search_flight_def)

lemma gradio_search_flight_returned:
  assumes "flight_no \<noteq> []" and "fst (gradio_try w flight_no) = Inr s"
  shows "fst (gradio_search_flight w flight_no) = Inr s"
  using assms
  by (cases "gradio_try w flight_no") (simp add: gradio_search_flight_def)

lemma service_world_post:
  "http_post (service_world service) search_flight_url
     (JObj [(''flight_number'', JStr ''UAL123'')]) = service"
  by (simp add: service_world_def sample_world_def search_flight_url_def)

text \<open>
  C7. On the empty input \<open>gradio_search_flight\<close> returns the text
  "Please enter a flight number." and the list of its outbound calls is empty.
\<close>

theorem empty_input_prompt:
  "gradio_search_flight w [] = (Inr ''Please enter a flight number.'', [])"
  by (simp add: gradio_search_flight_def)

theorem empty_input_prompt_witness:
  "gradio_search_flight (service_world no_answer) [] =
     (Inr ''Please enter a flight number.'', [])"
  using empty_input_prompt [of "service_world no_answer"] by simp

text \<open>
  C8. \<open>gradio_search_flight\<close> returns a text on every input and in every world, it never
  raises. On a non-empty input, when the POST request fails with an exception, and more
  generally when any statement inside the \<^verbatim>\<open>try\<close> raises one, the text returned is one of
  the two error prefixes followed by the description of that exception.
\<close>

theorem render_never_raises:
  "(\<exists>s. fst (gradio_search_flight w flight_no) = Inr s)
   \<and> (flight_no \<noteq> [] \<longrightarrow>
        (\<forall>e. http_post w search_flight_url (JObj [(''flight_number'', JStr flight_no)]) = Inl e
              \<or> fst (gradio_try w flight_no) = Inl e
          \<longrightarrow> fst (gradio_search_flight w flight_no) =
                Inr ((if is_RequestError e
                      then ''An error occurred while requesting flight information: ''
                      else ''An unexpected error occurred: '') @ exc_str w e)))"
proof
  show "\<exists>s. fst (gradio_search_flight w flight_no) = Inr s"
  proof (cases "flight_no = []")
    case True
    then show ?thesis by (simp add: gradio_search_flight_def)
  next
    case False
    show ?thesis
    proof (cases "fst (gradio_try w flight_no)")
      case (Inl e)
      then show ?thesis using gradio_search_flight_raised [OF False] by blast
    next
      case (Inr s)
      then show ?thesis using gradio_search_flight_returned [OF False] by blast
    qed
  qed
next
  show "flight_no \<noteq> [] \<longrightarrow>
        (\<forall>e. http_post w search_flight_url (JObj [(''flight_number'', JStr flight_no)]) = Inl e
              \<or> fst (gradio_try w flight_no) = Inl e
          \<longrightarrow> fst (gradio_search_flight w flight_no) =
                Inr ((if is_RequestError e
                      then ''An error occurred while requesting flight information: ''
                      else ''An unexpected error occurred: '') @ exc_str w e))"
    using gradio_try_post_fails gradio_search_flight_raised by blast
qed

theorem render_never_raises_witness:
  "''UAL123'' \<noteq> []
   \<and> http_post (service_world no_answer) search_flight_url
        (JObj [(''flight_number'', JStr ''UAL123'')])
       = Inl (RequestError ''All connection attempts failed'')
   \<and> fst (gradio_search_flight (service_world no_answer) ''UAL123'') =
       Inr ''An error occurred while requesting flight information: All connection attempts failed''"
proof -
  have p: "http_post (service_world no_answer) search_flight_url
        (JObj [(''flight_number'', JStr ''UAL123'')])
       = Inl (RequestError ''All connection attempts failed'')"
    by (simp add: service_world_post no_answer_def)
  have x: "exc_str (service_world no_answer) (RequestError m) = m" for m
    by (simp add: service_world_def sample_world_def)
  show ?thesis
    using render_never_raises [of "service_world no_answer" "''UAL123''"] p x
    by simp
qed

text \<open>
  What the client does with a body that is a JSON object without the key \<^verbatim>\<open>error\<close>: the
  five lines, each with the text of the value bound to the field, and with "N/A" for a field
  whose key is absent.
\<close>

lemma render_data_fields:
  assumes "map_of body ''error'' = None"
  shows "render_data w (JObj body) =
           Inr (''Flight Number: ''
                  @ (case map_of body ''flight_number'' of None \<Rightarrow> ''N/A'' | Some v \<Rightarrow> py_str w v)
                  @ newline @ ''Origin: ''
                  @ (case map_of body ''origin'' of None \<Rightarrow> ''N/A'' | Some v \<Rightarrow> py_str w v)
                  @ newline @ ''Destination: ''
                  @ (case map_of body ''destination'' of None \<Rightarrow> ''N/A'' | Some v \<Rightarrow> py_str w v)
                  @ newline @ ''Departure Time: ''
                  @ (case map_of body ''departure_time'' of None \<Rightarrow> ''N/A'' | Some v \<Rightarrow> py_str w v)
                  @ newline @ ''Arrival Time: ''
                  @ (case map_of body ''arrival_time'' of None \<Rightarrow> ''N/A'' | Some v \<Rightarrow> py_str w v))"
  using assms
  by (simp add: render_data_def format_flight_info_def bind_exc_def split: option.splits)

text \<open>
  C3. For the successful result of the specification's example, whose arrival time is null,
  the last line of the block is "Arrival Time: None": the text "N/A" is put in for a key that
  is absent from the body, not for a field that is present and null.
\<close>

theorem null_field_rendered_as_None:
  "fst (gradio_search_flight (service_world (Inr lookup_result_response)) ''UAL123'') =
     Inr (''Flight Number: UAL123'' @ newline
          @ ''Origin: SFO'' @ newline
          @ ''Destination: ORD'' @ newline
          @ ''Departure Time: 2024-01-01T10:00Z'' @ newline
          @ ''Arrival Time: None'')"
proof -
  have "fst (gradio_try (service_world (Inr lookup_result_response)) ''UAL123'') =
     Inr (''Flight Number: UAL123'' @ newline
          @ ''Origin: SFO'' @ newline
          @ ''Destination: ORD'' @ newline
          @ ''Departure Time: 2024-01-01T10:00Z'' @ newline
          @ ''Arrival Time: None'')"
    by (simp add: gradio_try_def service_world_post bind_exc_def raise_for_status_def
        lookup_result_response_def render_data_fields)
  then show ?thesis
    by (rule gradio_search_flight_returned [rotated]) simp
qed

end
